theory Spec2Isabelle
  imports Complex_Main
begin

section \<open>JavaScript values\<close>

text \<open>
  A JavaScript \<^verbatim>\<open>number\<close> is a finite value, one of the two infinities, or NaN.
  The store and the IPC layer only move numbers around, so the finite values are taken
  as reals; no rounding takes part in what is proved about them.
\<close>

datatype jsnum = Fin real | PosInf | NegInf | NaN

text \<open>The comparison \<^verbatim>\<open>a <= b\<close> of JavaScript: false as soon as one side is NaN.\<close>

fun js_le :: "jsnum \<Rightarrow> jsnum \<Rightarrow> bool" where
  "js_le NaN _ = False"
| "js_le _ NaN = False"
| "js_le NegInf _ = True"
| "js_le _ PosInf = True"
| "js_le (Fin a) (Fin b) = (a \<le> b)"
| "js_le (Fin a) NegInf = False"
| "js_le PosInf (Fin b) = False"
| "js_le PosInf NegInf = False"

text \<open>
  A value of type \<^verbatim>\<open>any\<close>: what JSON carries, and \<^verbatim>\<open>undefined\<close>. An object is
  the list of its own properties, the first entry of a key being the one that is read.
\<close>

datatype jsval =
    JUndefined
  | JNull
  | JBool bool
  | JNum jsnum
  | JStr string
  | JArr "jsval list"
  | JObj "(string \<times> jsval) list"

section \<open>The application store (\<^verbatim>\<open>useAppStore\<close>)\<close>

datatype backend_state = st_idle | st_running | st_error | st_stopped

record BackendStatus =
  status :: backend_state
  message :: "string option"
  code :: "jsnum option"

record Session =
  id :: string
  timestamp :: int
  session_videoPath :: "string option"
  session_motionData :: "jsval list option"
  session_flowMetrics :: jsval
  analysis :: jsval

record FlowMetrics =
  coherence :: jsnum
  smoothness :: jsnum
  balance :: jsnum
  energy :: jsnum
  focus :: jsnum

datatype theme = light | dark

record Settings =
  theme :: theme
  showSkeleton :: bool
  showTrajectories :: bool
  playbackSpeed :: jsnum
  autoDetectFlow :: bool

text \<open>
  \<^verbatim>\<open>Partial<AppState['flowMetrics']>\<close> and \<^verbatim>\<open>Partial<AppState['settings']>\<close>:
  every key may be absent (\<open>None\<close>).
\<close>

record PartialFlowMetrics =
  coherence_opt :: "jsnum option"
  smoothness_opt :: "jsnum option"
  balance_opt :: "jsnum option"
  energy_opt :: "jsnum option"
  focus_opt :: "jsnum option"

record PartialSettings =
  theme_opt :: "theme option"
  showSkeleton_opt :: "bool option"
  showTrajectories_opt :: "bool option"
  playbackSpeed_opt :: "jsnum option"
  autoDetectFlow_opt :: "bool option"

text \<open>
  The data fields of \<^verbatim>\<open>AppState\<close>; its other members are the actions below.
  \<^verbatim>\<open>processingProgress\<close> is declared a number and receives whatever the status
  response carried, so it is kept as a value of any type.
\<close>

record AppState =
  backendStatus :: BackendStatus
  currentSession :: "Session option"
  sessions :: "Session list"
  videoPath :: "string option"
  isProcessing :: bool
  processingProgress :: jsval
  motionData :: "jsval list"
  currentFrame :: jsnum
  flowMetrics :: FlowMetrics
  settings :: Settings

text \<open>The initial state, as the literal passed to \<^verbatim>\<open>create\<close> gives it.\<close>

definition initialState :: AppState where
  "initialState =
     \<lparr> backendStatus = \<lparr> status = st_idle, message = None, code = None \<rparr>,
       currentSession = None,
       sessions = [],
       videoPath = None,
       isProcessing = False,
       processingProgress = JNum (Fin 0),
       motionData = [],
       currentFrame = Fin 0,
       flowMetrics = \<lparr> coherence = Fin 0, smoothness = Fin 0, balance = Fin 0,
                       energy = Fin 0, focus = Fin 0 \<rparr>,
       settings = \<lparr> theme = dark, showSkeleton = True, showTrajectories = True,
                    playbackSpeed = Fin 1, autoDetectFlow = True \<rparr> \<rparr>"

text \<open>
  The object spread \<^verbatim>\<open>{ ...a, ...b }\<close>: a key of \<open>b\<close> wins, a key that \<open>b\<close> lacks
  keeps the value of \<open>a\<close>.
\<close>

definition spread :: "'a \<Rightarrow> 'a option \<Rightarrow> 'a" where
  "spread old new = (case new of None \<Rightarrow> old | Some v \<Rightarrow> v)"

definition spreadFlowMetrics :: "FlowMetrics \<Rightarrow> PartialFlowMetrics \<Rightarrow> FlowMetrics" where
  "spreadFlowMetrics a b =
     \<lparr> coherence = spread (coherence a) (coherence_opt b),
       smoothness = spread (smoothness a) (smoothness_opt b),
       balance = spread (balance a) (balance_opt b),
       energy = spread (energy a) (energy_opt b),
       focus = spread (focus a) (focus_opt b) \<rparr>"

definition spreadSettings :: "Settings \<Rightarrow> PartialSettings \<Rightarrow> Settings" where
  "spreadSettings a b =
     \<lparr> theme = spread (theme a) (theme_opt b),
       showSkeleton = spread (showSkeleton a) (showSkeleton_opt b),
       showTrajectories = spread (showTrajectories a) (showTrajectories_opt b),
       playbackSpeed = spread (playbackSpeed a) (playbackSpeed_opt b),
       autoDetectFlow = spread (autoDetectFlow a) (autoDetectFlow_opt b) \<rparr>"

text \<open>
  The actions. \<^verbatim>\<open>set(partial)\<close> of the store merges the given keys into the state and
  leaves the others, which the record update does.
\<close>

definition setIsProcessing :: "bool \<Rightarrow> AppState \<Rightarrow> AppState" where
  "setIsProcessing processing state = state\<lparr>isProcessing := processing\<rparr>"

definition setProcessingProgress :: "jsval \<Rightarrow> AppState \<Rightarrow> AppState" where
  "setProcessingProgress progress state = state\<lparr>processingProgress := progress\<rparr>"

definition setCurrentFrame :: "jsnum \<Rightarrow> AppState \<Rightarrow> AppState" where
  "setCurrentFrame frame state = state\<lparr>currentFrame := frame\<rparr>"

definition updateFlowMetrics :: "PartialFlowMetrics \<Rightarrow> AppState \<Rightarrow> AppState" where
  "updateFlowMetrics metrics state =
     state\<lparr>flowMetrics := spreadFlowMetrics (flowMetrics state) metrics\<rparr>"

definition updateSettings :: "PartialSettings \<Rightarrow> AppState \<Rightarrow> AppState" where
  "updateSettings newSettings state =
     state\<lparr>settings := spreadSettings (settings state) newSettings\<rparr>"

text \<open>The partial objects with one key, and with none.\<close>

definition noSettings :: PartialSettings where
  "noSettings = \<lparr> theme_opt = None, showSkeleton_opt = None, showTrajectories_opt = None,
                   playbackSpeed_opt = None, autoDetectFlow_opt = None \<rparr>"

definition onlyPlaybackSpeed :: "jsnum \<Rightarrow> PartialSettings" where
  "onlyPlaybackSpeed s = noSettings\<lparr>playbackSpeed_opt := Some s\<rparr>"

definition noFlowMetrics :: PartialFlowMetrics where
  "noFlowMetrics = \<lparr> coherence_opt = None, smoothness_opt = None, balance_opt = None,
                      energy_opt = None, focus_opt = None \<rparr>"

section \<open>Arithmetic of numbers\<close>

text \<open>
  Negation, addition, subtraction and multiplication of JavaScript numbers, with the
  IEEE rules for the infinities and NaN. Finite results are exact: rounding, overflow
  to an infinity and the sign of zero are not represented, so that these operations
  agree with the doubles of the code where each result is representable. What is proved
  of the transformation below rests on negation and on multiplication by \<open>1\<close> and
  \<open>-1\<close>, which are exact in doubles, and on points whose images are computed without
  rounding.
\<close>

fun js_neg :: "jsnum \<Rightarrow> jsnum" where
  "js_neg (Fin a) = Fin (- a)"
| "js_neg PosInf = NegInf"
| "js_neg NegInf = PosInf"
| "js_neg NaN = NaN"

fun js_add :: "jsnum \<Rightarrow> jsnum \<Rightarrow> jsnum" where
  "js_add NaN _ = NaN"
| "js_add _ NaN = NaN"
| "js_add (Fin a) (Fin b) = Fin (a + b)"
| "js_add PosInf NegInf = NaN"
| "js_add NegInf PosInf = NaN"
| "js_add PosInf _ = PosInf"
| "js_add NegInf _ = NegInf"
| "js_add (Fin a) b = b"

definition js_sub :: "jsnum \<Rightarrow> jsnum \<Rightarrow> jsnum" where
  "js_sub a b = js_add a (js_neg b)"

text \<open>The sign of a number other than NaN: 1, 0 or -1.\<close>

fun js_sign :: "jsnum \<Rightarrow> int" where
  "js_sign (Fin a) = (if a > 0 then 1 else if a < 0 then - 1 else 0)"
| "js_sign PosInf = 1"
| "js_sign NegInf = - 1"
| "js_sign NaN = 0"

fun js_mul :: "jsnum \<Rightarrow> jsnum \<Rightarrow> jsnum" where
  "js_mul NaN _ = NaN"
| "js_mul _ NaN = NaN"
| "js_mul (Fin a) (Fin b) = Fin (a * b)"
| "js_mul a b =
     (if js_sign a * js_sign b = 0 then NaN
      else if js_sign a * js_sign b > 0 then PosInf else NegInf)"

section \<open>The coordinate transformation of the stick figure\<close>

text \<open>
  \<^verbatim>\<open>landmark[i]\<close>: the entry, or \<^verbatim>\<open>undefined\<close> past the end of the array, which
  arithmetic turns into NaN.
\<close>

definition coord :: "jsnum list \<Rightarrow> nat \<Rightarrow> jsnum" where
  "coord landmark i = (if i < length landmark then landmark ! i else NaN)"

text \<open>
  Video to Three.js coordinates, the three lines that the documentation of the
  components quotes from the stick figure (the component itself is not among the
  sources):
  \<^verbatim>\<open>const x = (landmark[0] - 0.5) * 2 * (mirrored ? -1 : 1);\<close>
  \<^verbatim>\<open>const y = -(landmark[1] - 0.5) * 2;\<close>
  \<^verbatim>\<open>const z = -landmark[2] * 2;\<close>
  The source gives the function no name; it is called \<open>toScene\<close> here.
\<close>

definition toScene :: "jsnum list \<Rightarrow> bool \<Rightarrow> jsnum list" where
  "toScene landmark mirrored =
     (let x = js_mul (js_mul (js_sub (coord landmark 0) (Fin 0.5)) (Fin 2))
                (if mirrored then Fin (- 1) else Fin 1);
          y = js_mul (js_neg (js_sub (coord landmark 1) (Fin 0.5))) (Fin 2);
          z = js_mul (js_neg (coord landmark 2)) (Fin 2)
      in [x, y, z])"

text \<open>Negation of the first coordinate of a point, the mirroring of the scene.\<close>

definition negate_x :: "jsnum list \<Rightarrow> jsnum list" where
  "negate_x p = (case p of [] \<Rightarrow> [] | x # rest \<Rightarrow> js_neg x # rest)"

section \<open>Reading values of any type\<close>

text \<open>
  \<^verbatim>\<open>v.k\<close> for the keys read below, which no string, number, boolean or array
  has: \<open>None\<close> is the TypeError of reading a property of \<^verbatim>\<open>undefined\<close> or
  \<^verbatim>\<open>null\<close>.
\<close>

fun get_prop :: "jsval \<Rightarrow> string \<Rightarrow> jsval option" where
  "get_prop JUndefined k = None"
| "get_prop JNull k = None"
| "get_prop (JObj ps) k = Some (case map_of ps k of None \<Rightarrow> JUndefined | Some v \<Rightarrow> v)"
| "get_prop v k = Some JUndefined"


fun truthy :: "jsval \<Rightarrow> bool" where
  "truthy JUndefined = False"
| "truthy JNull = False"
| "truthy (JBool b) = b"
| "truthy (JNum n) = (n \<noteq> Fin 0 \<and> n \<noteq> NaN)"
| "truthy (JStr s) = (s \<noteq> [])"
| "truthy (JArr xs) = True"
| "truthy (JObj ps) = True"

text \<open>\<^verbatim>\<open>a || b\<close>\<close>

definition js_or :: "jsval \<Rightarrow> jsval \<Rightarrow> jsval" where
  "js_or a b = (if truthy a then a else b)"


section \<open>The backend handlers of the main process\<close>

text \<open>
  What a \<^verbatim>\<open>try\<close> block catches here is an \<^verbatim>\<open>Error\<close> object: it has a message,
  and the error of a request that the backend answered has a \<^verbatim>\<open>response\<close> with the
  body of the answer in \<^verbatim>\<open>data\<close>.
\<close>

record Thrown =
  err_message :: string
  err_response :: "jsval option"

text \<open>The outcome of an awaited call: \<open>Inl\<close> when it throws, \<open>Inr\<close> its value.\<close>

type_synonym 'a outcome = "Thrown + 'a"

text \<open>
  What a handler returns to the renderer. A key that the returned object lacks reads
  as \<^verbatim>\<open>undefined\<close>.
\<close>

record IpcResponse =
  success :: bool
  data :: jsval
  error :: jsval













section \<open>The status polling of \<^verbatim>\<open>VideoCapture\<close>\<close>

text \<open>
  The requests that the polling issues, in the order in which it issues them, with the
  video id they carry; and, between them, each status that a poll delivered.
\<close>

datatype action =
    GetVideoStatus string
  | Snapshot jsval
  | GetVideoResults string

text \<open>
  The component state that the polling effect reads and writes: the React state
  (\<^verbatim>\<open>videoId\<close>, \<^verbatim>\<open>processingResults\<close>, \<^verbatim>\<open>error\<close>, here \<open>vc_error\<close>), the
  store, whether the interval of the effect is set and not yet cleared, whether
  \<^verbatim>\<open>window.electronAPI\<close> is defined, and how many status and results requests are
  awaited. \<open>history\<close> records the actions; the code does not read it.
\<close>

record VideoCapture =
  videoId :: "string option"
  processingResults :: jsval
  vc_error :: jsval
  store :: AppState
  interval :: bool
  electronAPI :: bool
  pendingStatus :: nat
  pendingResults :: nat
  history :: "action list"

text \<open>
  What happens to the effect, one event at a time: the interval fires, an awaited status
  request settles, an awaited results request settles, the cleanup of the effect runs.
  \<open>'r\<close> is what a settled request resolves to. Between two \<^verbatim>\<open>await\<close>s the
  callback runs without interruption, and callbacks of successive firings interleave
  at their \<^verbatim>\<open>await\<close>s when a request outlasts the period of the interval.
\<close>

datatype 'r event =
    Tick
  | StatusReply "'r outcome"
  | ResultsReply "'r outcome"
  | Cleanup

text \<open>\<^verbatim>\<open>const { status, progress } = response.data;\<close>\<close>

definition destructure_status :: "jsval \<Rightarrow> (jsval \<times> jsval) option" where
  "destructure_status d =
     (case get_prop d ''status'' of
        None \<Rightarrow> None
      | Some s \<Rightarrow> (case get_prop d ''progress'' of None \<Rightarrow> None | Some p \<Rightarrow> Some (s, p)))"

text \<open>The branch \<^verbatim>\<open>status === 'error'\<close>, the same in both versions of the component.\<close>

definition status_error :: "VideoCapture \<Rightarrow> VideoCapture" where
  "status_error st =
     st\<lparr> interval := False,
         store := setIsProcessing False (store st),
         vc_error := JStr ''Processing failed. Please try again.'' \<rparr>"

subsection \<open>The version that talks to the main process\<close>

text \<open>The effect sets the interval under its guard.\<close>

definition ipc_effect :: "VideoCapture \<Rightarrow> VideoCapture" where
  "ipc_effect st =
     (if videoId st \<noteq> None \<and> videoId st \<noteq> Some [] \<and> isProcessing (store st) \<and> electronAPI st
      then st\<lparr>interval := True\<rparr> else st)"

definition ipc_catch :: "VideoCapture \<Rightarrow> VideoCapture" where
  "ipc_catch st =
     st\<lparr> vc_error := JStr ''Failed to communicate with backend.'',
         store := setIsProcessing False (store st),
         interval := False \<rparr>"

text \<open>A cleared interval fires no callback; a set one exists only with a video id.\<close>

definition ipc_tick :: "VideoCapture \<Rightarrow> VideoCapture" where
  "ipc_tick st =
     (case videoId st of
        None \<Rightarrow> st
      | Some vid \<Rightarrow>
          if \<not> interval st then st
          else if \<not> electronAPI st then st\<lparr>interval := False\<rparr>
          else st\<lparr> history := history st @ [GetVideoStatus vid],
                   pendingStatus := Suc (pendingStatus st) \<rparr>)"

definition ipc_completed :: "string \<Rightarrow> VideoCapture \<Rightarrow> VideoCapture" where
  "ipc_completed vid st =
     (let st3 = st\<lparr> interval := False, store := setIsProcessing False (store st) \<rparr>
      in if electronAPI st3
         then st3\<lparr> history := history st3 @ [GetVideoResults vid],
                    pendingResults := Suc (pendingResults st3) \<rparr>
         else st3)"

text \<open>A reply can only arrive for a request that is awaited.\<close>

definition ipc_status_reply :: "VideoCapture \<Rightarrow> IpcResponse outcome \<Rightarrow> VideoCapture" where
  "ipc_status_reply st r =
     (case videoId st of
        None \<Rightarrow> st
      | Some vid \<Rightarrow>
          if pendingStatus st = 0 then st
          else
            (let st1 = st\<lparr>pendingStatus := pendingStatus st - 1\<rparr>
             in case r of
                  Inl e \<Rightarrow> ipc_catch st1
                | Inr response \<Rightarrow>
                    if success response then
                      (case destructure_status (data response) of
                         None \<Rightarrow> ipc_catch st1
                       | Some (s, progress) \<Rightarrow>
                           (let st2 = st1\<lparr> store := setProcessingProgress progress (store st1),
                                            history := history st1 @ [Snapshot s] \<rparr>
                            in if s = JStr ''completed'' then ipc_completed vid st2
                               else if s = JStr ''error'' then status_error st2
                               else st2))
                    else st1))"

definition ipc_results_reply :: "VideoCapture \<Rightarrow> IpcResponse outcome \<Rightarrow> VideoCapture" where
  "ipc_results_reply st r =
     (if pendingResults st = 0 then st
      else
        (let st1 = st\<lparr>pendingResults := pendingResults st - 1\<rparr>
         in case r of
              Inl e \<Rightarrow> ipc_catch st1
            | Inr resultsResponse \<Rightarrow>
                if success resultsResponse then
                  (case get_prop (data resultsResponse) ''results'' of
                     None \<Rightarrow> ipc_catch st1
                   | Some v \<Rightarrow> st1\<lparr>processingResults := v\<rparr>)
                else st1\<lparr>vc_error :=
                             js_or (error resultsResponse) (JStr ''Failed to fetch results.'')\<rparr>))"

fun ipc_step :: "VideoCapture \<Rightarrow> IpcResponse event \<Rightarrow> VideoCapture" where
  "ipc_step st Tick = ipc_tick st"
| "ipc_step st (StatusReply r) = ipc_status_reply st r"
| "ipc_step st (ResultsReply r) = ipc_results_reply st r"
| "ipc_step st Cleanup = st\<lparr>interval := False\<rparr>"

definition ipc_run :: "VideoCapture \<Rightarrow> IpcResponse event list \<Rightarrow> VideoCapture" where
  "ipc_run st es = foldl ipc_step st es"

subsection \<open>The version that asks the backend over HTTP\<close>

text \<open>
  Here a request resolves to the \<^verbatim>\<open>data\<close> of the response, and the \<^verbatim>\<open>catch\<close>
  only writes to the console.
\<close>

definition http_effect :: "VideoCapture \<Rightarrow> VideoCapture" where
  "http_effect st =
     (if videoId st \<noteq> None \<and> videoId st \<noteq> Some [] \<and> isProcessing (store st)
      then st\<lparr>interval := True\<rparr> else st)"

definition http_tick :: "VideoCapture \<Rightarrow> VideoCapture" where
  "http_tick st =
     (case videoId st of
        None \<Rightarrow> st
      | Some vid \<Rightarrow>
          if \<not> interval st then st
          else st\<lparr> history := history st @ [GetVideoStatus vid],
                   pendingStatus := Suc (pendingStatus st) \<rparr>)"

definition http_completed :: "string \<Rightarrow> VideoCapture \<Rightarrow> VideoCapture" where
  "http_completed vid st =
     st\<lparr> interval := False,
         store := setIsProcessing False (store st),
         history := history st @ [GetVideoResults vid],
         pendingResults := Suc (pendingResults st) \<rparr>"

definition http_status_reply :: "VideoCapture \<Rightarrow> jsval outcome \<Rightarrow> VideoCapture" where
  "http_status_reply st r =
     (case videoId st of
        None \<Rightarrow> st
      | Some vid \<Rightarrow>
          if pendingStatus st = 0 then st
          else
            (let st1 = st\<lparr>pendingStatus := pendingStatus st - 1\<rparr>
             in case r of
                  Inl e \<Rightarrow> st1
                | Inr d \<Rightarrow>
                    (case destructure_status d of
                       None \<Rightarrow> st1
                     | Some (s, progress) \<Rightarrow>
                         (let st2 = st1\<lparr> store := setProcessingProgress progress (store st1),
                                          history := history st1 @ [Snapshot s] \<rparr>
                          in if s = JStr ''completed'' then http_completed vid st2
                             else if s = JStr ''error'' then status_error st2
                             else st2))))"

definition http_results_reply :: "VideoCapture \<Rightarrow> jsval outcome \<Rightarrow> VideoCapture" where
  "http_results_reply st r =
     (if pendingResults st = 0 then st
      else
        (let st1 = st\<lparr>pendingResults := pendingResults st - 1\<rparr>
         in case r of
              Inl e \<Rightarrow> st1
            | Inr d \<Rightarrow>
                (case get_prop d ''results'' of
                   None \<Rightarrow> st1
                 | Some v \<Rightarrow> st1\<lparr>processingResults := v\<rparr>)))"

fun http_step :: "VideoCapture \<Rightarrow> jsval event \<Rightarrow> VideoCapture" where
  "http_step st Tick = http_tick st"
| "http_step st (StatusReply r) = http_status_reply st r"
| "http_step st (ResultsReply r) = http_results_reply st r"
| "http_step st Cleanup = st\<lparr>interval := False\<rparr>"

definition http_run :: "VideoCapture \<Rightarrow> jsval event list \<Rightarrow> VideoCapture" where
  "http_run st es = foldl http_step st es"

subsection \<open>Reading a history\<close>

fun is_poll :: "action \<Rightarrow> bool" where
  "is_poll (GetVideoStatus v) = True"
| "is_poll a = False"


definition polls :: "action list \<Rightarrow> action list" where
  "polls h = filter is_poll h"




text \<open>A component that has a video selected and uploaded and is processing it.\<close>

definition processing :: "string \<Rightarrow> VideoCapture" where
  "processing vid =
     \<lparr> videoId = Some vid,
       processingResults = JNull,
       vc_error = JNull,
       store = initialState\<lparr>isProcessing := True\<rparr>,
       interval = False,
       electronAPI = True,
       pendingStatus = 0,
       pendingResults = 0,
       history = [] \<rparr>"

text \<open>The status object \<^verbatim>\<open>{ status, progress }\<close> of the backend, and how it arrives.\<close>

definition status_data :: "string \<Rightarrow> real \<Rightarrow> jsval" where
  "status_data s p = JObj [(''status'', JStr s), (''progress'', JNum (Fin p))]"

definition ok :: "jsval \<Rightarrow> IpcResponse" where
  "ok d = \<lparr> success = True, data = d, error = JUndefined \<rparr>"

text \<open>
  The status that a reply delivers to the callback, when it delivers one: the reply is
  awaited, it resolves (in the version that talks to the main process, with
  \<^verbatim>\<open>success\<close>), and its data can be destructured.
\<close>

definition ipc_delivered :: "VideoCapture \<Rightarrow> IpcResponse outcome \<Rightarrow> jsval option" where
  "ipc_delivered st r =
     (case videoId st of
        None \<Rightarrow> None
      | Some vid \<Rightarrow>
          if pendingStatus st = 0 then None
          else (case r of
                  Inl e \<Rightarrow> None
                | Inr response \<Rightarrow>
                    if success response
                    then map_option fst (destructure_status (data response))
                    else None))"

definition http_delivered :: "VideoCapture \<Rightarrow> jsval outcome \<Rightarrow> jsval option" where
  "http_delivered st r =
     (case videoId st of
        None \<Rightarrow> None
      | Some vid \<Rightarrow>
          if pendingStatus st = 0 then None
          else (case r of
                  Inl e \<Rightarrow> None
                | Inr d \<Rightarrow> map_option fst (destructure_status d)))"











text \<open>A status object that reports an error and carries a detail of it.\<close>

definition error_data :: jsval where
  "error_data = JObj [(''status'', JStr ''error''), (''progress'', JNum (Fin 40)),
                      (''error'', JStr ''Traceback (most recent call last): ...'')]"

subsection \<open>What holds along a run\<close>




section \<open>The schema validator\<close>

text \<open>
  Modelled from the spec: the validator of animation documents
  (\<^verbatim>\<open>AnimationLoader.validateAnimationData\<close>), of which the repository documents only
  the signature. The data model, the order of the checks and the error tags are those of
  the specification; the keys of a document are those of its canonical document shape,
  and those of a hand are the ones of the documented \<^verbatim>\<open>HandData\<close> interface.
\<close>

datatype tag = MissingField | TypeMismatch | ShapeMismatch | OutOfRange | NonMonotonicSequence

text \<open>Modelled from the spec: the path to the offending field, a key or an index at a time.\<close>

datatype seg = Key string | Idx nat

type_synonym ValidationError = "tag \<times> seg list"

type_synonym 'a checked = "ValidationError + 'a"

text \<open>Modelled from the spec: \<open>AnimationData\<close> and its parts, as the data model lists them.\<close>

record Metadata =
  fps :: real
  totalFrames :: int
  processedSize :: real
  originalBoundingBox :: "real list"

record Skeleton =
  poseConnections :: "int list list"
  handConnections :: "int list list"
  poseNames :: "string list"
  handNames :: "string list"

record HandData =
  handLandmarks :: "real list list"
  handedness :: string

record Landmarks =
  pose :: "real list list option"
  worldPose :: "real list list option"
  leftHand :: "HandData option"
  rightHand :: "HandData option"

record AnimationFrame =
  frame :: int
  time :: real
  landmarks :: Landmarks

record AnimationData =
  metadata :: Metadata
  skeleton :: Skeleton
  frames :: "AnimationFrame list"

text \<open>Modelled from the spec: fail-fast, the first violation is the result.\<close>

definition andThen :: "'a checked \<Rightarrow> ('a \<Rightarrow> 'b checked) \<Rightarrow> 'b checked" where
  "andThen r f = (case r of Inl e \<Rightarrow> Inl e | Inr v \<Rightarrow> f v)"

text \<open>
  Modelled from the spec: a check of each entry of a sequence in order, given its index.
\<close>

fun each :: "(nat \<Rightarrow> 'a \<Rightarrow> 'b checked) \<Rightarrow> nat \<Rightarrow> 'a list \<Rightarrow> 'b list checked" where
  "each f i [] = Inr []"
| "each f i (v # vs) =
     andThen (f i v) (\<lambda>w. andThen (each f (Suc i) vs) (\<lambda>ws. Inr (w # ws)))"

text \<open>
  Modelled from the spec: presence and types. A key that an object lacks is a
  \<open>MissingField\<close> at the key, a value of another type than the expected one a
  \<open>TypeMismatch\<close> at the value, a sequence of another length than the exact one a
  \<open>ShapeMismatch\<close>, a number outside its bounds an \<open>OutOfRange\<close>.
\<close>

fun need_field :: "seg list \<Rightarrow> jsval \<Rightarrow> string \<Rightarrow> jsval checked" where
  "need_field p (JObj ps) k =
     (case map_of ps k of None \<Rightarrow> Inl (MissingField, p @ [Key k]) | Some w \<Rightarrow> Inr w)"
| "need_field p v k = Inl (TypeMismatch, p)"

text \<open>Modelled from the spec: an optional channel is absent, or null, or present.\<close>

fun opt_field :: "seg list \<Rightarrow> jsval \<Rightarrow> string \<Rightarrow> jsval option checked" where
  "opt_field p (JObj ps) k =
     (case map_of ps k of None \<Rightarrow> Inr None | Some JNull \<Rightarrow> Inr None | Some w \<Rightarrow> Inr (Some w))"
| "opt_field p v k = Inl (TypeMismatch, p)"

fun as_number :: "seg list \<Rightarrow> jsval \<Rightarrow> real checked" where
  "as_number p (JNum (Fin r)) = Inr r"
| "as_number p v = Inl (TypeMismatch, p)"

definition as_integer :: "seg list \<Rightarrow> jsval \<Rightarrow> int checked" where
  "as_integer p v =
     andThen (as_number p v)
       (\<lambda>r. if r = of_int \<lfloor>r\<rfloor> then Inr \<lfloor>r\<rfloor> else Inl (TypeMismatch, p))"

fun as_text :: "seg list \<Rightarrow> jsval \<Rightarrow> string checked" where
  "as_text p (JStr s) = Inr s"
| "as_text p v = Inl (TypeMismatch, p)"

fun as_array :: "seg list \<Rightarrow> jsval \<Rightarrow> jsval list checked" where
  "as_array p (JArr vs) = Inr vs"
| "as_array p v = Inl (TypeMismatch, p)"

definition need_length :: "nat \<Rightarrow> seg list \<Rightarrow> 'a list \<Rightarrow> 'a list checked" where
  "need_length n p vs = (if length vs = n then Inr vs else Inl (ShapeMismatch, p))"

definition need_positive :: "seg list \<Rightarrow> 'a::linordered_idom \<Rightarrow> 'a checked" where
  "need_positive p r = (if 0 < r then Inr r else Inl (OutOfRange, p))"

text \<open>Modelled from the spec: a sequence of exactly \<open>n\<close> numbers, such as a triple.\<close>

definition as_tuple :: "nat \<Rightarrow> seg list \<Rightarrow> jsval \<Rightarrow> real list checked" where
  "as_tuple n p v =
     andThen (as_array p v) (\<lambda>vs.
     andThen (need_length n p vs) (\<lambda>vs.
     each (\<lambda>j. as_number (p @ [Idx j])) 0 vs))"

text \<open>Modelled from the spec: a sequence of exactly \<open>n\<close> tuples of \<open>k\<close> numbers.\<close>

definition as_points :: "nat \<Rightarrow> nat \<Rightarrow> seg list \<Rightarrow> jsval \<Rightarrow> real list list checked" where
  "as_points n k p v =
     andThen (as_array p v) (\<lambda>vs.
     andThen (need_length n p vs) (\<lambda>vs.
     each (\<lambda>j. as_tuple k (p @ [Idx j])) 0 vs))"

text \<open>
  Modelled from the spec: the first check, metadata field presence, types and positivity;
  the bounding box is exactly 4 numbers.
\<close>

definition check_metadata :: "jsval \<Rightarrow> Metadata checked" where
  "check_metadata doc =
     andThen (need_field [] doc ''metadata'') (\<lambda>m.
     andThen (andThen (andThen (need_field [Key ''metadata''] m ''fps'')
                (as_number [Key ''metadata'', Key ''fps'']))
                (need_positive [Key ''metadata'', Key ''fps''])) (\<lambda>f.
     andThen (andThen (andThen (need_field [Key ''metadata''] m ''total_frames'')
                (as_integer [Key ''metadata'', Key ''total_frames'']))
                (need_positive [Key ''metadata'', Key ''total_frames''])) (\<lambda>n.
     andThen (andThen (andThen (need_field [Key ''metadata''] m ''processed_size'')
                (as_number [Key ''metadata'', Key ''processed_size'']))
                (need_positive [Key ''metadata'', Key ''processed_size''])) (\<lambda>s.
     andThen (andThen (need_field [Key ''metadata''] m ''original_bbox'')
                (as_tuple 4 [Key ''metadata'', Key ''original_bbox''])) (\<lambda>b.
     Inr \<lparr> fps = f, totalFrames = n, processedSize = s, originalBoundingBox = b \<rparr>)))))"

text \<open>
  Modelled from the spec: the second check, \<open>totalFrames\<close> equals the length of the frame
  array. The spec names no tag for it; the count of a sequence is taken as its shape.
\<close>

definition check_frame_count :: "jsval \<Rightarrow> Metadata \<Rightarrow> jsval list checked" where
  "check_frame_count doc md =
     andThen (andThen (need_field [] doc ''frames'') (as_array [Key ''frames''])) (\<lambda>fs.
     if int (length fs) = totalFrames md then Inr fs
     else Inl (ShapeMismatch, [Key ''frames'']))"

text \<open>
  Modelled from the spec: the third check, the shapes and index bounds of the skeleton
  arrays: connections are pairs of indices in \<open>[0, bound]\<close>, and there are 33 pose names
  and 21 hand names.
\<close>

definition as_connection :: "int \<Rightarrow> seg list \<Rightarrow> jsval \<Rightarrow> int list checked" where
  "as_connection bound p v =
     andThen (as_array p v) (\<lambda>vs.
     andThen (need_length 2 p vs) (\<lambda>vs.
     each (\<lambda>j w. andThen (as_integer (p @ [Idx j]) w) (\<lambda>a.
             if 0 \<le> a \<and> a \<le> bound then Inr a else Inl (OutOfRange, p @ [Idx j]))) 0 vs))"

definition as_connections :: "int \<Rightarrow> seg list \<Rightarrow> jsval \<Rightarrow> int list list checked" where
  "as_connections bound p v =
     andThen (as_array p v) (each (\<lambda>j. as_connection bound (p @ [Idx j])) 0)"

definition as_names :: "nat \<Rightarrow> seg list \<Rightarrow> jsval \<Rightarrow> string list checked" where
  "as_names n p v =
     andThen (as_array p v) (\<lambda>vs.
     andThen (need_length n p vs) (\<lambda>vs.
     each (\<lambda>j. as_text (p @ [Idx j])) 0 vs))"

definition check_skeleton :: "jsval \<Rightarrow> Skeleton checked" where
  "check_skeleton doc =
     andThen (need_field [] doc ''skeleton'') (\<lambda>sk.
     andThen (andThen (need_field [Key ''skeleton''] sk ''pose_connections'')
                (as_connections 32 [Key ''skeleton'', Key ''pose_connections''])) (\<lambda>pc.
     andThen (andThen (need_field [Key ''skeleton''] sk ''hand_connections'')
                (as_connections 20 [Key ''skeleton'', Key ''hand_connections''])) (\<lambda>hc.
     andThen (need_field [Key ''skeleton''] sk ''landmark_names'') (\<lambda>ln.
     andThen (andThen (need_field [Key ''skeleton'', Key ''landmark_names''] ln ''pose'')
                (as_names 33 [Key ''skeleton'', Key ''landmark_names'', Key ''pose''])) (\<lambda>pn.
     andThen (andThen (need_field [Key ''skeleton'', Key ''landmark_names''] ln ''hand'')
                (as_names 21 [Key ''skeleton'', Key ''landmark_names'', Key ''hand''])) (\<lambda>hn.
     Inr \<lparr> poseConnections = pc, handConnections = hc,
           poseNames = pn, handNames = hn \<rparr>))))))"

text \<open>
  Modelled from the spec: the fourth check, each frame's index and time: the index
  equals the position of the frame, and the times do not decrease. Either violation is a
  \<open>NonMonotonicSequence\<close>.
\<close>

definition frame_index :: "nat \<Rightarrow> jsval \<Rightarrow> int checked" where
  "frame_index i f =
     andThen (andThen (need_field [Key ''frames'', Idx i] f ''frame'')
                (as_integer [Key ''frames'', Idx i, Key ''frame''])) (\<lambda>n.
     if n = int i then Inr n
     else Inl (NonMonotonicSequence, [Key ''frames'', Idx i, Key ''frame'']))"

definition frame_time :: "nat \<Rightarrow> real option \<Rightarrow> jsval \<Rightarrow> real checked" where
  "frame_time i prev f =
     andThen (andThen (need_field [Key ''frames'', Idx i] f ''time'')
                (as_number [Key ''frames'', Idx i, Key ''time''])) (\<lambda>t.
     case prev of
       None \<Rightarrow> Inr t
     | Some u \<Rightarrow> if u \<le> t then Inr t
                else Inl (NonMonotonicSequence, [Key ''frames'', Idx i, Key ''time'']))"

fun check_sequence :: "nat \<Rightarrow> real option \<Rightarrow> jsval list \<Rightarrow> (int \<times> real) list checked" where
  "check_sequence i prev [] = Inr []"
| "check_sequence i prev (f # fs) =
     andThen (frame_index i f) (\<lambda>n.
     andThen (frame_time i prev f) (\<lambda>t.
     andThen (check_sequence (Suc i) (Some t) fs) (\<lambda>rest.
     Inr ((n, t) # rest))))"

text \<open>
  Modelled from the spec: the fifth check, each frame's landmark arrays when present:
  33 pose triples, 33 world-pose quadruples, and per hand 21 triples and a handedness.
\<close>

definition as_channel ::
  "(seg list \<Rightarrow> jsval \<Rightarrow> 'a checked) \<Rightarrow> seg list \<Rightarrow> jsval \<Rightarrow> string \<Rightarrow> 'a option checked" where
  "as_channel parse p l k =
     andThen (opt_field p l k) (\<lambda>c.
     case c of
       None \<Rightarrow> Inr None
     | Some v \<Rightarrow> andThen (parse (p @ [Key k]) v) (\<lambda>w. Inr (Some w)))"

definition as_hand :: "seg list \<Rightarrow> jsval \<Rightarrow> HandData checked" where
  "as_hand p v =
     andThen (andThen (need_field p v ''landmarks'')
                (as_points 21 3 (p @ [Key ''landmarks'']))) (\<lambda>rows.
     andThen (andThen (need_field p v ''handedness'')
                (as_text (p @ [Key ''handedness'']))) (\<lambda>h.
     Inr \<lparr> handLandmarks = rows, handedness = h \<rparr>))"

definition frame_landmarks :: "nat \<Rightarrow> jsval \<Rightarrow> Landmarks checked" where
  "frame_landmarks i f =
     andThen (need_field [Key ''frames'', Idx i] f ''landmarks'') (\<lambda>l.
     andThen (as_channel (as_points 33 3)
                [Key ''frames'', Idx i, Key ''landmarks''] l ''pose'') (\<lambda>ps.
     andThen (as_channel (as_points 33 4)
                [Key ''frames'', Idx i, Key ''landmarks''] l ''world_pose'') (\<lambda>wp.
     andThen (as_channel as_hand
                [Key ''frames'', Idx i, Key ''landmarks''] l ''left_hand'') (\<lambda>lh.
     andThen (as_channel as_hand
                [Key ''frames'', Idx i, Key ''landmarks''] l ''right_hand'') (\<lambda>rh.
     Inr \<lparr> pose = ps, worldPose = wp, leftHand = lh, rightHand = rh \<rparr>)))))"

definition check_landmarks :: "jsval list \<Rightarrow> Landmarks list checked" where
  "check_landmarks fs = each frame_landmarks 0 fs"

text \<open>Modelled from the spec: the sixth check, numeric ranges: visibility in \<open>[0, 1]\<close>.\<close>

definition visibility_in_range :: "nat \<Rightarrow> nat \<Rightarrow> real list \<Rightarrow> unit checked" where
  "visibility_in_range i j row =
     (case row of
        [x, y, z, v] \<Rightarrow>
          if 0 \<le> v \<and> v \<le> 1 then Inr ()
          else Inl (OutOfRange,
                 [Key ''frames'', Idx i, Key ''landmarks'', Key ''world_pose'', Idx j, Idx 3])
      | _ \<Rightarrow> Inr ())"

definition frame_ranges :: "nat \<Rightarrow> Landmarks \<Rightarrow> unit checked" where
  "frame_ranges i l =
     (case worldPose l of
        None \<Rightarrow> Inr ()
      | Some rows \<Rightarrow> andThen (each (visibility_in_range i) 0 rows) (\<lambda>u. Inr ()))"

definition check_ranges :: "Landmarks list \<Rightarrow> unit list checked" where
  "check_ranges ls = each frame_ranges 0 ls"

text \<open>
  Modelled from the spec: \<open>validate\<close> runs the six checks in order and stops at the first
  violation; on success it gives the canonical \<open>AnimationData\<close>.
\<close>

definition validate :: "jsval \<Rightarrow> AnimationData checked" where
  "validate doc =
     andThen (check_metadata doc) (\<lambda>md.
     andThen (check_frame_count doc md) (\<lambda>fs.
     andThen (check_skeleton doc) (\<lambda>sk.
     andThen (check_sequence 0 None fs) (\<lambda>sq.
     andThen (check_landmarks fs) (\<lambda>ls.
     andThen (check_ranges ls) (\<lambda>u.
     Inr \<lparr> metadata = md, skeleton = sk,
           frames = map (\<lambda>((n, t), l). \<lparr> frame = n, time = t, landmarks = l \<rparr>)
                      (zip sq ls) \<rparr>))))))"

subsection \<open>Documents to validate\<close>

text \<open>A frame without landmarks, and one whose pose has \<open>n\<close> entries.\<close>

definition frame_json :: "real \<Rightarrow> real \<Rightarrow> jsval \<Rightarrow> jsval" where
  "frame_json n t ps =
     JObj [(''frame'', JNum (Fin n)), (''time'', JNum (Fin t)),
           (''landmarks'', JObj [(''pose'', ps), (''world_pose'', JNull),
                                 (''left_hand'', JNull), (''right_hand'', JNull)])]"

definition pose_json :: "nat \<Rightarrow> jsval" where
  "pose_json n = JArr (replicate n (JArr [JNum (Fin 0.5), JNum (Fin 0.3), JNum (Fin 0)]))"

definition metadata_json :: "real \<Rightarrow> jsval" where
  "metadata_json n =
     JObj [(''fps'', JNum (Fin 30)), (''total_frames'', JNum (Fin n)),
           (''processed_size'', JNum (Fin 1920)),
           (''original_bbox'', JArr [JNum (Fin 0), JNum (Fin 0), JNum (Fin 1920), JNum (Fin 1080)])]"

definition skeleton_json :: jsval where
  "skeleton_json =
     JObj [(''pose_connections'', JArr [JArr [JNum (Fin 0), JNum (Fin 1)]]),
           (''hand_connections'', JArr [JArr [JNum (Fin 0), JNum (Fin 1)]]),
           (''landmark_names'',
              JObj [(''pose'', JArr (replicate 33 (JStr ''nose''))),
                    (''hand'', JArr (replicate 21 (JStr ''wrist'')))])]"

definition document :: "jsval list \<Rightarrow> jsval" where
  "document fs =
     JObj [(''metadata'', metadata_json (real (length fs))),
           (''skeleton'', skeleton_json),
           (''frames'', JArr fs)]"

text \<open>Four frames in sequence; the same with the index of the fourth changed to 7.\<close>

definition four_frames :: "jsval list" where
  "four_frames =
     [frame_json 0 0 (pose_json 33), frame_json 1 0.033 JNull,
      frame_json 2 0.066 JNull, frame_json 3 0.1 JNull]"

definition fourth_is_seven :: "jsval list" where
  "fourth_is_seven =
     [frame_json 0 0 (pose_json 33), frame_json 1 0.033 JNull,
      frame_json 2 0.066 JNull, frame_json 7 0.1 JNull]"

text \<open>Frames in sequence, the second with a pose of 30 entries.\<close>

definition short_pose :: "jsval list" where
  "short_pose = [frame_json 0 0 (pose_json 33), frame_json 1 0.033 (pose_json 30)]"

text \<open>A frame out of sequence whose pose has 30 entries.\<close>

definition short_pose_out_of_sequence :: "jsval list" where
  "short_pose_out_of_sequence = [frame_json 5 0 (pose_json 30)]"

section \<open>The store: what an action changes\<close>

lemmas store_defs = updateSettings_def updateFlowMetrics_def spreadSettings_def
  spreadFlowMetrics_def spread_def

text \<open>
  C10. \<^verbatim>\<open>updateSettings(s)\<close> changes only the \<^verbatim>\<open>settings\<close> field of the store:
  the backend status, the sessions, the video, processing, motion-data and flow-metrics
  state are as before, and each settings key is the one of \<open>s\<close> when \<open>s\<close> has it and
  the prior value when \<open>s\<close> lacks it. Likewise \<^verbatim>\<open>updateFlowMetrics(m)\<close> changes only
  \<^verbatim>\<open>flowMetrics\<close>, each metric being the one of \<open>m\<close> when present and the prior one
  otherwise.
\<close>

theorem updates_touch_one_field:
  "backendStatus (updateSettings s st) = backendStatus st \<and>
   currentSession (updateSettings s st) = currentSession st \<and>
   sessions (updateSettings s st) = sessions st \<and>
   videoPath (updateSettings s st) = videoPath st \<and>
   isProcessing (updateSettings s st) = isProcessing st \<and>
   processingProgress (updateSettings s st) = processingProgress st \<and>
   motionData (updateSettings s st) = motionData st \<and>
   currentFrame (updateSettings s st) = currentFrame st \<and>
   flowMetrics (updateSettings s st) = flowMetrics st \<and>
   theme (settings (updateSettings s st)) =
     (case theme_opt s of None \<Rightarrow> theme (settings st) | Some v \<Rightarrow> v) \<and>
   showSkeleton (settings (updateSettings s st)) =
     (case showSkeleton_opt s of None \<Rightarrow> showSkeleton (settings st) | Some v \<Rightarrow> v) \<and>
   showTrajectories (settings (updateSettings s st)) =
     (case showTrajectories_opt s of None \<Rightarrow> showTrajectories (settings st) | Some v \<Rightarrow> v) \<and>
   playbackSpeed (settings (updateSettings s st)) =
     (case playbackSpeed_opt s of None \<Rightarrow> playbackSpeed (settings st) | Some v \<Rightarrow> v) \<and>
   autoDetectFlow (settings (updateSettings s st)) =
     (case autoDetectFlow_opt s of None \<Rightarrow> autoDetectFlow (settings st) | Some v \<Rightarrow> v) \<and>
   backendStatus (updateFlowMetrics m st) = backendStatus st \<and>
   currentSession (updateFlowMetrics m st) = currentSession st \<and>
   sessions (updateFlowMetrics m st) = sessions st \<and>
   videoPath (updateFlowMetrics m st) = videoPath st \<and>
   isProcessing (updateFlowMetrics m st) = isProcessing st \<and>
   processingProgress (updateFlowMetrics m st) = processingProgress st \<and>
   motionData (updateFlowMetrics m st) = motionData st \<and>
   currentFrame (updateFlowMetrics m st) = currentFrame st \<and>
   settings (updateFlowMetrics m st) = settings st \<and>
   coherence (flowMetrics (updateFlowMetrics m st)) =
     (case coherence_opt m of None \<Rightarrow> coherence (flowMetrics st) | Some v \<Rightarrow> v) \<and>
   smoothness (flowMetrics (updateFlowMetrics m st)) =
     (case smoothness_opt m of None \<Rightarrow> smoothness (flowMetrics st) | Some v \<Rightarrow> v) \<and>
   balance (flowMetrics (updateFlowMetrics m st)) =
     (case balance_opt m of None \<Rightarrow> balance (flowMetrics st) | Some v \<Rightarrow> v) \<and>
   energy (flowMetrics (updateFlowMetrics m st)) =
     (case energy_opt m of None \<Rightarrow> energy (flowMetrics st) | Some v \<Rightarrow> v) \<and>
   focus (flowMetrics (updateFlowMetrics m st)) =
     (case focus_opt m of None \<Rightarrow> focus (flowMetrics st) | Some v \<Rightarrow> v)"
  by (simp add: store_defs)

text \<open>
  The update \<^verbatim>\<open>{ playbackSpeed: 2 }\<close> of the initial store: the speed is 2, the theme
  is still dark, the frame still 0.
\<close>

theorem updates_touch_one_field_witness:
  "playbackSpeed (settings (updateSettings (onlyPlaybackSpeed (Fin 2)) initialState)) = Fin 2 \<and>
   theme_opt (onlyPlaybackSpeed (Fin 2)) = None \<and>
   theme (settings (updateSettings (onlyPlaybackSpeed (Fin 2)) initialState)) = dark \<and>
   currentFrame (updateSettings (onlyPlaybackSpeed (Fin 2)) initialState) = Fin 0"
  using updates_touch_one_field [of "onlyPlaybackSpeed (Fin 2)" initialState noFlowMetrics]
  by (simp add: onlyPlaybackSpeed_def noSettings_def initialState_def)

text \<open>
  C5, as the claim states it, fails: the frame stored for the request \<open>-1\<close> is \<open>-1\<close>,
  which no clamping to \<open>[0, totalFrames - 1]\<close> gives.
\<close>

theorem seek_is_not_clamped:
  "currentFrame (setCurrentFrame (Fin (- 1)) initialState) = Fin (- 1) \<and>
   \<not> js_le (Fin 0) (currentFrame (setCurrentFrame (Fin (- 1)) initialState))"
  by (simp add: setCurrentFrame_def)

text \<open>
  C5, amended. For every requested frame \<open>f\<close>, in range or not, \<^verbatim>\<open>setCurrentFrame\<close>
  stores \<open>f\<close> itself, in any state of the store and at once, and changes no other field
  of the store (which holds neither a frame count nor a playing or paused state).
\<close>

theorem seek_stores_request:
  "currentFrame (setCurrentFrame f st) = f \<and>
   backendStatus (setCurrentFrame f st) = backendStatus st \<and>
   currentSession (setCurrentFrame f st) = currentSession st \<and>
   sessions (setCurrentFrame f st) = sessions st \<and>
   videoPath (setCurrentFrame f st) = videoPath st \<and>
   isProcessing (setCurrentFrame f st) = isProcessing st \<and>
   processingProgress (setCurrentFrame f st) = processingProgress st \<and>
   motionData (setCurrentFrame f st) = motionData st \<and>
   flowMetrics (setCurrentFrame f st) = flowMetrics st \<and>
   settings (setCurrentFrame f st) = settings st"
  by (simp add: setCurrentFrame_def)

text \<open>
  C6, as the claim states it, fails: the speeds \<open>0\<close> and NaN are stored, and the prior
  speed \<open>1\<close> is not retained.
\<close>

theorem invalid_speed_is_stored:
  "js_le (Fin 0) (Fin 0) \<and>
   playbackSpeed (settings initialState) = Fin 1 \<and>
   playbackSpeed (settings (updateSettings (onlyPlaybackSpeed (Fin 0)) initialState)) = Fin 0 \<and>
   playbackSpeed (settings (updateSettings (onlyPlaybackSpeed NaN) initialState)) = NaN"
  by (simp add: onlyPlaybackSpeed_def noSettings_def initialState_def store_defs)

text \<open>
  C6, amended. For every new speed \<open>s\<close>, NaN and \<open>s \<le> 0\<close> included,
  \<^verbatim>\<open>updateSettings\<close> stores \<open>s\<close> as the playback speed: nothing is rejected, and the
  prior speed is replaced. The update always yields a store, whose other fields are the
  prior ones.
\<close>

theorem any_speed_is_stored:
  assumes "playbackSpeed_opt n = Some s"
  shows "playbackSpeed (settings (updateSettings n st)) = s \<and>
         backendStatus (updateSettings n st) = backendStatus st \<and>
         currentSession (updateSettings n st) = currentSession st \<and>
         sessions (updateSettings n st) = sessions st \<and>
         videoPath (updateSettings n st) = videoPath st \<and>
         isProcessing (updateSettings n st) = isProcessing st \<and>
         processingProgress (updateSettings n st) = processingProgress st \<and>
         motionData (updateSettings n st) = motionData st \<and>
         currentFrame (updateSettings n st) = currentFrame st \<and>
         flowMetrics (updateSettings n st) = flowMetrics st"
  using assms by (simp add: store_defs)

theorem any_speed_is_stored_witness:
  "playbackSpeed_opt (onlyPlaybackSpeed NegInf) = Some NegInf \<and>
   playbackSpeed (settings (updateSettings (onlyPlaybackSpeed NegInf) initialState)) = NegInf"
proof -
  have a: "playbackSpeed_opt (onlyPlaybackSpeed NegInf) = Some NegInf"
    by (simp add: onlyPlaybackSpeed_def)
  from any_speed_is_stored [OF a, of initialState] a show ?thesis by simp
qed

section \<open>The coordinate transformation\<close>

text \<open>
  C4, as the claim states it, fails at the point \<open>[0, 0, 1]\<close>, whose coordinates and
  images are computed without rounding: applying the transformation twice with
  \<open>mirrored = true\<close> gives \<open>[-1, -1, 4]\<close>, applying it once with \<open>mirrored = false\<close> and
  negating x gives \<open>[1, 1, -2]\<close>, and \<open>toScene(toScene(p, true), false)\<close> is
  \<open>[1, -1, 4]\<close>, not the point.
\<close>

theorem toScene_twice_is_not_mirroring:
  "toScene (toScene [Fin 0, Fin 0, Fin 1] True) True = [Fin (- 1), Fin (- 1), Fin 4] \<and>
   negate_x (toScene [Fin 0, Fin 0, Fin 1] False) = [Fin 1, Fin 1, Fin (- 2)] \<and>
   toScene (toScene [Fin 0, Fin 0, Fin 1] True) True \<noteq>
     negate_x (toScene [Fin 0, Fin 0, Fin 1] False) \<and>
   toScene (toScene [Fin 0, Fin 0, Fin 1] True) False = [Fin 1, Fin (- 1), Fin 4] \<and>
   toScene (toScene [Fin 0, Fin 0, Fin 1] True) False \<noteq> [Fin 0, Fin 0, Fin 1]"
  by (simp add: toScene_def coord_def js_sub_def negate_x_def)

lemma js_neg_twice: "js_neg (js_neg a) = a"
  by (cases a) simp_all

lemma js_mul_minus_one: "js_mul a (Fin (- 1)) = js_neg a"
  by (cases a) simp_all

lemma js_mul_one: "js_mul a (Fin 1) = a"
  by (cases a) simp_all

text \<open>
  C4, amended. For every point \<open>p\<close>, applying the transformation once with
  \<open>mirrored = true\<close> is applying it once with \<open>mirrored = false\<close> and then negating x,
  and the other way round; negating x twice restores a point, so that mirroring twice is
  the identity.
\<close>

theorem mirroring_negates_x:
  "toScene p True = negate_x (toScene p False) \<and>
   toScene p False = negate_x (toScene p True) \<and>
   negate_x (negate_x q) = q"
  by (simp add: toScene_def negate_x_def Let_def js_mul_minus_one js_mul_one js_neg_twice
        split: list.splits)

section \<open>The backend handlers: what they return\<close>






section \<open>The polling: what a run does\<close>

subsection \<open>Histories\<close>


lemma polls_append: "polls (h @ k) = polls h @ polls k"
  by (simp add: polls_def)










subsection \<open>Steps of the version that talks to the main process\<close>

lemmas ipc_defs = ipc_tick_def ipc_status_reply_def ipc_results_reply_def ipc_completed_def
  ipc_catch_def status_error_def setIsProcessing_def setProcessingProgress_def

lemma ipc_tick_history:
  "history (ipc_tick st) =
     history st @ (case videoId st of None \<Rightarrow> [] | Some vid \<Rightarrow>
                     if interval st \<and> electronAPI st then [GetVideoStatus vid] else [])"
  by (simp add: ipc_tick_def split: option.splits)

lemma ipc_status_reply_history:
  "history (ipc_status_reply st r) =
     history st @
     (case ipc_delivered st r of
        None \<Rightarrow> []
      | Some s \<Rightarrow>
          if s = JStr ''completed'' \<and> electronAPI st
          then [Snapshot s, GetVideoResults (the (videoId st))]
          else [Snapshot s])"
  by (simp add: ipc_defs ipc_delivered_def Let_def split: option.splits sum.splits prod.splits)

lemma ipc_results_reply_history:
  "history (ipc_results_reply st r) = history st"
  by (simp add: ipc_defs Let_def split: option.splits sum.splits prod.splits)

lemma ipc_tick_interval: "interval (ipc_tick st) \<Longrightarrow> interval st"
  by (simp add: ipc_tick_def split: option.splits if_splits)

lemma ipc_status_reply_interval:
  "interval (ipc_status_reply st r) \<Longrightarrow> interval st"
  by (simp add: ipc_defs Let_def split: option.splits sum.splits prod.splits if_splits)


lemma ipc_results_reply_interval:
  "interval (ipc_results_reply st r) \<Longrightarrow> interval st"
  by (simp add: ipc_defs Let_def split: option.splits sum.splits prod.splits if_splits)

lemma ipc_step_interval: "interval (ipc_step st e) \<Longrightarrow> interval st"
  by (cases e) (auto dest: ipc_tick_interval ipc_status_reply_interval ipc_results_reply_interval)

lemma ipc_tick_fixed:
  "videoId (ipc_tick st) = videoId st \<and> electronAPI (ipc_tick st) = electronAPI st"
  by (simp add: ipc_tick_def split: option.splits)

lemma ipc_status_reply_fixed:
  "videoId (ipc_status_reply st r) = videoId st \<and>
   electronAPI (ipc_status_reply st r) = electronAPI st"
  by (simp add: ipc_defs Let_def split: option.splits sum.splits prod.splits)

lemma ipc_results_reply_fixed:
  "videoId (ipc_results_reply st r) = videoId st \<and>
   electronAPI (ipc_results_reply st r) = electronAPI st"
  by (simp add: ipc_defs Let_def split: option.splits sum.splits prod.splits)

lemma ipc_step_fixed:
  "videoId (ipc_step st e) = videoId st \<and> electronAPI (ipc_step st e) = electronAPI st"
  by (cases e) (simp_all add: ipc_tick_fixed ipc_status_reply_fixed ipc_results_reply_fixed)






lemma ipc_step_polls_off:
  "\<not> interval st \<Longrightarrow> polls (history (ipc_step st e)) = polls (history st)"
  by (cases e)
     (simp_all add: ipc_tick_history ipc_status_reply_history ipc_results_reply_history
        polls_def split: option.splits)

lemma ipc_run_off:
  "\<not> interval st \<Longrightarrow>
     polls (history (ipc_run st es)) = polls (history st) \<and> \<not> interval (ipc_run st es)"
  unfolding ipc_run_def
proof (induction es arbitrary: st)
  case Nil
  then show ?case by simp
next
  case (Cons e es)
  from Cons.prems have "\<not> interval (ipc_step st e)"
    using ipc_step_interval by blast
  from Cons.IH [OF this] ipc_step_polls_off [OF Cons.prems, of e]
  show ?case by simp
qed






subsection \<open>Steps of the version that asks over HTTP\<close>

lemmas http_defs = http_tick_def http_status_reply_def http_results_reply_def http_completed_def
  status_error_def setIsProcessing_def setProcessingProgress_def

lemma http_tick_history:
  "history (http_tick st) =
     history st @ (case videoId st of None \<Rightarrow> [] | Some vid \<Rightarrow>
                     if interval st then [GetVideoStatus vid] else [])"
  by (simp add: http_tick_def split: option.splits)

lemma http_status_reply_history:
  "history (http_status_reply st r) =
     history st @
     (case http_delivered st r of
        None \<Rightarrow> []
      | Some s \<Rightarrow>
          if s = JStr ''completed''
          then [Snapshot s, GetVideoResults (the (videoId st))]
          else [Snapshot s])"
  by (simp add: http_defs http_delivered_def Let_def split: option.splits sum.splits prod.splits)

lemma http_results_reply_history:
  "history (http_results_reply st r) = history st"
  by (simp add: http_defs Let_def split: option.splits sum.splits prod.splits)

lemma http_tick_interval: "interval (http_tick st) \<Longrightarrow> interval st"
  by (simp add: http_tick_def split: option.splits if_splits)

lemma http_status_reply_interval:
  "interval (http_status_reply st r) \<Longrightarrow> interval st"
  by (simp add: http_defs Let_def split: option.splits sum.splits prod.splits if_splits)


lemma http_results_reply_interval:
  "interval (http_results_reply st r) \<Longrightarrow> interval st"
  by (simp add: http_defs Let_def split: option.splits sum.splits prod.splits if_splits)

lemma http_step_interval: "interval (http_step st e) \<Longrightarrow> interval st"
  by (cases e)
     (auto dest: http_tick_interval http_status_reply_interval http_results_reply_interval)

lemma http_step_polls_off:
  "\<not> interval st \<Longrightarrow> polls (history (http_step st e)) = polls (history st)"
  by (cases e)
     (simp_all add: http_tick_history http_status_reply_history http_results_reply_history
        polls_def split: option.splits)

lemma http_run_off:
  "\<not> interval st \<Longrightarrow>
     polls (history (http_run st es)) = polls (history st) \<and> \<not> interval (http_run st es)"
  unfolding http_run_def
proof (induction es arbitrary: st)
  case Nil
  then show ?case by simp
next
  case (Cons e es)
  from Cons.prems have "\<not> interval (http_step st e)"
    using http_step_interval by blast
  from Cons.IH [OF this] http_step_polls_off [OF Cons.prems, of e]
  show ?case by simp
qed



subsection \<open>Terminal statuses\<close>
























lemmas run_defs = ipc_run_def http_run_def ipc_defs http_defs processing_def ipc_effect_def
  http_effect_def status_data_def ok_def destructure_status_def initialState_def Let_def





subsection \<open>The status \<open>error\<close>\<close>

lemma ipc_error_step:
  assumes "videoId st = Some vid" and "0 < pendingStatus st"
    and "destructure_status d = Some (JStr ''error'', p)"
  shows "ipc_status_reply st (Inr \<lparr> success = True, data = d, error = x \<rparr>) =
           st\<lparr> pendingStatus := pendingStatus st - 1,
               store := (store st)\<lparr> processingProgress := p, isProcessing := False \<rparr>,
               history := history st @ [Snapshot (JStr ''error'')],
               interval := False,
               vc_error := JStr ''Processing failed. Please try again.'' \<rparr>"
  using assms by (simp add: ipc_defs Let_def)

lemma http_error_step:
  assumes "videoId st = Some vid" and "0 < pendingStatus st"
    and "destructure_status d = Some (JStr ''error'', p)"
  shows "http_status_reply st (Inr d) =
           st\<lparr> pendingStatus := pendingStatus st - 1,
               store := (store st)\<lparr> processingProgress := p, isProcessing := False \<rparr>,
               history := history st @ [Snapshot (JStr ''error'')],
               interval := False,
               vc_error := JStr ''Processing failed. Please try again.'' \<rparr>"
  using assms by (simp add: http_defs Let_def)

text \<open>
  C7. When a poll delivers the status \<open>error\<close>, in either version: the interval is
  cleared and processing ends on that very reply, no request is issued by it (neither a
  results request nor a retry), and no status request is issued afterwards; the error
  shown is the fixed text \<open>Processing failed. Please try again.\<close>, whatever else the
  reply carries.
\<close>

theorem error_status_surfaces_at_once:
  assumes "videoId st = Some vid" and "0 < pendingStatus st"
    and "destructure_status d = Some (JStr ''error'', p)"
    and "si = ipc_step st (StatusReply (Inr \<lparr> success = True, data = d, error = x \<rparr>))"
    and "sh = http_step st (StatusReply (Inr d))"
  shows "\<not> interval si \<and> \<not> isProcessing (store si) \<and>
         vc_error si = JStr ''Processing failed. Please try again.'' \<and>
         history si = history st @ [Snapshot (JStr ''error'')] \<and>
         pendingResults si = pendingResults st \<and>
         polls (history (ipc_run si es)) = polls (history st) \<and>
         \<not> interval sh \<and> \<not> isProcessing (store sh) \<and>
         vc_error sh = JStr ''Processing failed. Please try again.'' \<and>
         history sh = history st @ [Snapshot (JStr ''error'')] \<and>
         pendingResults sh = pendingResults st \<and>
         polls (history (http_run sh es')) = polls (history st)"
proof -
  have i: "si = st\<lparr> pendingStatus := pendingStatus st - 1,
               store := (store st)\<lparr> processingProgress := p, isProcessing := False \<rparr>,
               history := history st @ [Snapshot (JStr ''error'')],
               interval := False,
               vc_error := JStr ''Processing failed. Please try again.'' \<rparr>"
    using assms(4) ipc_error_step [OF assms(1-3)] by simp
  have h: "sh = st\<lparr> pendingStatus := pendingStatus st - 1,
               store := (store st)\<lparr> processingProgress := p, isProcessing := False \<rparr>,
               history := history st @ [Snapshot (JStr ''error'')],
               interval := False,
               vc_error := JStr ''Processing failed. Please try again.'' \<rparr>"
    using assms(5) http_error_step [OF assms(1-3)] by simp
  have ni: "\<not> interval si" using i by simp
  have nh: "\<not> interval sh" using h by simp
  have pi: "polls (history (ipc_run si es)) = polls (history st)"
    using ipc_run_off [OF ni, of es] i by (simp add: polls_def)
  have ph: "polls (history (http_run sh es')) = polls (history st)"
    using http_run_off [OF nh, of es'] h by (simp add: polls_def)
  show ?thesis
    using pi ph by (simp add: i h)
qed

text \<open>
  A status object that also carries a stack trace: the fixed text is shown, and the two
  later firings of the interval poll nothing.
\<close>

theorem error_status_surfaces_at_once_witness:
  "vc_error (ipc_run (ipc_effect (processing ''v1''))
      [Tick, StatusReply (Inr (ok error_data)), Tick, Tick]) =
     JStr ''Processing failed. Please try again.'' \<and>
   history (ipc_run (ipc_effect (processing ''v1''))
      [Tick, StatusReply (Inr (ok error_data)), Tick, Tick]) =
     [GetVideoStatus ''v1'', Snapshot (JStr ''error'')] \<and>
   vc_error (http_run (http_effect (processing ''v1''))
      [Tick, StatusReply (Inr error_data), Tick, Tick]) =
     JStr ''Processing failed. Please try again.'' \<and>
   history (http_run (http_effect (processing ''v1''))
      [Tick, StatusReply (Inr error_data), Tick, Tick]) =
     [GetVideoStatus ''v1'', Snapshot (JStr ''error'')]"
proof -
  let ?s = "ipc_step (ipc_effect (processing ''v1'')) Tick"
  have a: "videoId ?s = Some ''v1''" and b: "0 < pendingStatus ?s"
    and c: "destructure_status error_data = Some (JStr ''error'', JNum (Fin 40))"
    by (simp_all add: run_defs error_data_def)
  have s: "?s = http_step (http_effect (processing ''v1'')) Tick"
    by (simp add: run_defs)
  from error_status_surfaces_at_once [OF a b c refl refl, of JUndefined "[Tick, Tick]" "[Tick, Tick]"]
  show ?thesis
    by (simp add: run_defs error_data_def polls_def)
qed

subsection \<open>Polls that fail\<close>




lemma http_run_append: "http_run st (es @ es') = http_run (http_run st es) es'"
  by (simp add: http_run_def)

lemma ipc_run_append: "ipc_run st (es @ es') = ipc_run (ipc_run st es) es'"
  by (simp add: ipc_run_def)






section \<open>The validator: what it rejects\<close>

subsection \<open>Checks in sequence\<close>

lemma andThen_simps:
  "andThen (Inl e) f = Inl e"
  "andThen (Inr v) f = f v"
  by (simp_all add: andThen_def)

lemma andThen_eq_Inr: "andThen r f = Inr b \<longleftrightarrow> (\<exists>v. r = Inr v \<and> f v = Inr b)"
  by (cases r) (simp_all add: andThen_def)

lemma each_length: "each f i vs = Inr ws \<Longrightarrow> length ws = length vs"
  by (induction vs arbitrary: i ws) (auto simp: andThen_eq_Inr)











subsection \<open>Frames out of sequence and short poses\<close>






lemmas validator_defs = validate_def check_metadata_def check_frame_count_def check_skeleton_def
  check_landmarks_def check_ranges_def frame_index_def frame_time_def frame_landmarks_def
  frame_ranges_def visibility_in_range_def as_channel_def as_hand_def as_points_def as_tuple_def
  as_names_def as_connections_def as_connection_def as_integer_def need_length_def
  need_positive_def andThen_simps

lemmas document_defs = document_def metadata_json_def skeleton_json_def frame_json_def
  pose_json_def four_frames_def fourth_is_seven_def short_pose_def
  short_pose_out_of_sequence_def

lemma each_replicate:
  "(\<And>j. f j x = Inr y) \<Longrightarrow> each f i (replicate n x) = Inr (replicate n y)"
  by (induction n arbitrary: i) (simp_all add: andThen_simps)

lemma each_names:
  "each (\<lambda>j. as_text (q j)) i (replicate n (JStr s)) = Inr (replicate n s)"
  by (rule each_replicate) simp

lemma each_triples:
  "each (\<lambda>j. as_tuple 3 (q j)) i
     (replicate n (JArr [JNum (Fin a), JNum (Fin b), JNum (Fin c)])) =
     Inr (replicate n [a, b, c])"
  by (rule each_replicate) (simp add: as_tuple_def need_length_def andThen_simps)

lemma four_frames_valid: "\<exists>a. validate (document four_frames) = Inr a"
  by (simp add: validator_defs document_defs each_names each_triples)



end
